theory Spec2Isabelle
  imports Main "HOL-Library.Char_ord" "HOL-Library.List_Lexorder"
begin

section \<open>Go library functions used by the router\<close>

text \<open>
  Go strings are byte sequences; they are modelled as \<^typ>\<open>string\<close> (a list of
  8-bit characters). The functions of this section belong to the Go standard library,
  not to the repository; each is written after its definition in the current Go
  releases, restricted to the way the router calls it. So are, further down,
  \<^verbatim>\<open>URL.Port\<close>, \<^verbatim>\<open>URL.Hostname\<close> and \<^verbatim>\<open>URL.String\<close>, \<^verbatim>\<open>rand.Intn\<close>,
  \<^verbatim>\<open>textproto.CanonicalMIMEHeaderKey\<close>, \<^verbatim>\<open>Header.Add\<close> and \<^verbatim>\<open>json.Marshal\<close>.
\<close>

text \<open>
  \<^verbatim>\<open>strings.Split(s, sep)\<close> for a one-byte separator, the only form the router uses
  (\<^verbatim>\<open>"/"\<close> and \<^verbatim>\<open>":"\<close>): the pieces of \<open>s\<close> between the
  occurrences of \<open>sep\<close>; one piece more than there are separators, so never empty.
\<close>

fun strings_Split :: "string \<Rightarrow> char \<Rightarrow> string list" where
  "strings_Split [] sep = [[]]"
| "strings_Split (c # cs) sep =
     (let r = strings_Split cs sep
      in if c = sep then [] # r else (c # hd r) # tl r)"

text \<open>
  \<^verbatim>\<open>strconv.Atoi\<close> with a 64-bit \<^verbatim>\<open>int\<close>: an optional sign, then one or more
  decimal digits; \<^verbatim>\<open>ErrSyntax\<close> on anything else, \<^verbatim>\<open>ErrRange\<close> when the
  magnitude leaves the unsigned 64-bit accumulator or the signed 64-bit result.
\<close>

datatype num_error = ErrSyntax | ErrRange

definition is_digit :: "char \<Rightarrow> bool" where
  "is_digit c = (48 \<le> (of_char c :: nat) \<and> (of_char c :: nat) \<le> 57)"

fun parse_digits :: "nat \<Rightarrow> string \<Rightarrow> num_error + nat" where
  "parse_digits n [] = Inr n"
| "parse_digits n (c # cs) =
     (if \<not> is_digit c then Inl ErrSyntax
      else let n1 = n * 10 + ((of_char c :: nat) - 48)
           in if n1 \<ge> 2 ^ 64 then Inl ErrRange else parse_digits n1 cs)"

definition ParseUint :: "string \<Rightarrow> num_error + nat" where
  "ParseUint s = (if s = [] then Inl ErrSyntax else parse_digits 0 s)"

definition Atoi :: "string \<Rightarrow> num_error + int" where
  "Atoi s =
     (if s = [] then Inl ErrSyntax
      else let neg = (hd s = CHR ''-'');
               s1 = (if hd s = CHR ''+'' \<or> hd s = CHR ''-'' then tl s else s)
           in case ParseUint s1 of
                Inl e \<Rightarrow> Inl e
              | Inr un \<Rightarrow>
                  if \<not> neg \<and> un \<ge> 2 ^ 63 then Inl ErrRange
                  else if neg \<and> un > 2 ^ 63 then Inl ErrRange
                  else Inr (if neg then - int un else int un))"

section \<open>URLs\<close>

text \<open>
  \<^verbatim>\<open>net/url.URL\<close>, with the fields the router reads. \<^verbatim>\<open>Host\<close> is
  \<^verbatim>\<open>host\<close> or \<^verbatim>\<open>host:port\<close>.
\<close>

record url =
  Scheme :: string
  Host :: string
  Path :: string

text \<open>
  \<^verbatim>\<open>validOptionalPort\<close> and \<^verbatim>\<open>splitHostPort\<close> of \<^verbatim>\<open>net/url\<close>: the port is
  what follows the last colon of \<^verbatim>\<open>Host\<close> when that is all digits (possibly none);
  brackets around an IPv6 host are dropped.
\<close>

definition validOptionalPort :: "string \<Rightarrow> bool" where
  "validOptionalPort port =
     (case port of [] \<Rightarrow> True
      | c # cs \<Rightarrow> c = CHR '':'' \<and> list_all is_digit cs)"

fun LastIndexByte :: "string \<Rightarrow> char \<Rightarrow> nat option" where
  "LastIndexByte [] c = None"
| "LastIndexByte (x # xs) c =
     (case LastIndexByte xs c of
        Some i \<Rightarrow> Some (Suc i)
      | None \<Rightarrow> if x = c then Some 0 else None)"

definition splitHostPort :: "string \<Rightarrow> string \<times> string" where
  "splitHostPort hostPort =
     (let (host, port) =
            (case LastIndexByte hostPort CHR '':'' of
               None \<Rightarrow> (hostPort, [])
             | Some colon \<Rightarrow>
                 if validOptionalPort (drop colon hostPort)
                 then (take colon hostPort, drop (Suc colon) hostPort)
                 else (hostPort, []))
      in if host \<noteq> [] \<and> hd host = CHR ''['' \<and> last host = CHR '']''
         then (butlast (tl host), port) else (host, port))"

definition Hostname :: "url \<Rightarrow> string" where
  "Hostname u = fst (splitHostPort (Host u))"

definition Port :: "url \<Rightarrow> string" where
  "Port u = snd (splitHostPort (Host u))"

section \<open>Errors and effects\<close>

text \<open>
  The router's errors are values built by \<^verbatim>\<open>fmt.Errorf\<close>, or handed up from a
  collaborator. One constructor per format string of the source:
  \<^item> \<open>InvalidRackEndpoint\<close>: \<^verbatim>\<open>"invalid rack endpoint"\<close> (the spec's
    \<^verbatim>\<open>MalformedPath\<close>); the TCP forwarder appends the target URL;
  \<^item> \<open>InvalidEndpoint kind seg\<close>: \<^verbatim>\<open>"invalid %s endpoint: %s"\<close> (the spec's
    \<^verbatim>\<open>MalformedInstanceSelector\<close>);
  \<^item> \<open>UnknownProxyType kind\<close>: \<^verbatim>\<open>"unknown proxy type: %s"\<close> (the spec's
    \<^verbatim>\<open>UnknownKind\<close>);
  \<^item> \<open>UnknownListenerScheme scheme\<close>: \<^verbatim>\<open>"unknown listener scheme: %s"\<close> (the
    spec's \<^verbatim>\<open>UnsupportedScheme\<close>);
  \<^item> \<open>ProxyAlreadyExists port\<close>: \<^verbatim>\<open>"proxy already exists for port: %d"\<close> (the
    spec's \<^verbatim>\<open>PortConflict\<close>);
  \<^item> \<open>NoProcessesAvailable service\<close>:
    \<^verbatim>\<open>"no processes available for service: %s"\<close> (the spec's
    \<^verbatim>\<open>NoInstancesAvailable\<close>);
  \<^item> \<open>NumError s e\<close>: the error of \<^verbatim>\<open>strconv.Atoi\<close> on \<open>s\<close>;
  \<^item> \<open>External msg\<close>: an error returned by the network, the TLS layer or the rack
    client.
\<close>

datatype error =
    InvalidRackEndpoint "url option"
  | InvalidEndpoint string string
  | UnknownProxyType string
  | UnknownListenerScheme string
  | ProxyAlreadyExists int
  | NoProcessesAvailable string
  | NumError string num_error
  | External string

text \<open>
  A connection: the \<open>n\<close>-th one accepted by a listener; one dialed to a host; the end
  \<^verbatim>\<open>b\<close> of a \<^verbatim>\<open>net.Pipe()\<close> whose end \<^verbatim>\<open>a\<close> is relayed to the process with the
  given id; such an end wrapped in \<^verbatim>\<open>nopDeadlineConn\<close>; the two connections of a
  WebSocket bridge.
\<close>

datatype conn =
    Accepted nat
  | Dialed string
  | PipeEnd string
  | NopDeadlineConn conn
  | Frontend
  | Backend

text \<open>
  A call that may block for ever (\<^verbatim>\<open>Accept\<close> on a listener nobody connects to, a
  receive on a channel nobody sends to) either returns a value or does not return.
\<close>

datatype 'a outcome = Returned 'a | Blocked

text \<open>
  What a forwarder does to the outside world, in program order. Deferred calls appear
  where they run: at the return, last deferred first.
\<close>

datatype event =
    ConnClose conn
  | NetDial string
  | HelpersPipe conn conn
  | RackNewFromEnv
  | RackResourceProxy string string conn
  | RackProcessList string string
  | RandIntn nat
  | NetPipe
  | GoServiceProxy string string int
  | HelpersStream conn
  | TunnelClose
  | NetListen string
  | ListenerClose
  | GenerateCertificate string
  | TLSNewListener
  | HTTPServe
  | ListenerAccept
  | GoProxyRackTCP conn
  | Upgrade
  | WsDial
  | GoCopy conn conn
  | ChanReceive "error option"
  | Printf string

section \<open>Rack targets\<close>

text \<open>
  The handler \<^verbatim>\<open>proxyRackHTTP\<close> builds: a router whose WebSocket route is
  \<^verbatim>\<open>p.ws(app, service, pi)\<close> and whose other requests go to a reverse proxy with
  \<^verbatim>\<open>serviceTransport(app, service, pi)\<close>; \<^verbatim>\<open>proxyHTTP\<close> builds a reverse proxy
  to the target host for the other targets.
\<close>

datatype handler =
    RackMux string string int
  | SingleHostReverseProxy url

text \<open>
  \<^verbatim>\<open>proxyRackHTTP\<close> returns the pair \<^verbatim>\<open>(http.Handler, error)\<close>; \<^verbatim>\<open>nil\<close> is
  \<open>None\<close>. Indexing \<open>parts ! 3\<close> and \<open>sp ! 1\<close> is in range behind the two length
  checks.
\<close>

definition proxyRackHTTP :: "url \<Rightarrow> handler option \<times> error option" where
  "proxyRackHTTP target =
     (let parts = strings_Split (Path target) CHR ''/''
      in if length parts < 4 then (None, Some (InvalidRackEndpoint None))
         else
           let app = parts ! 1; kind = parts ! 2;
               sp = strings_Split (parts ! 3) CHR '':''
           in if length sp < 2 then (None, Some (InvalidEndpoint kind (parts ! 2)))
              else
                let service = sp ! 0
                in case Atoi (sp ! 1) of
                     Inl e \<Rightarrow> (None, Some (NumError (sp ! 1) e))
                   | Inr pi \<Rightarrow>
                       if kind = ''service'' then (Some (RackMux app service pi), None)
                       else (None, Some (UnknownProxyType kind)))"

text \<open>
  The collaborators of \<^verbatim>\<open>proxyRackTCP\<close>: what \<^verbatim>\<open>rack.NewFromEnv()\<close>,
  \<^verbatim>\<open>r.ResourceProxy(app, resource, cn)\<close> and \<^verbatim>\<open>helpers.Stream(cn, pr)\<close> return
  (\<open>None\<close> is a \<^verbatim>\<open>nil\<close> error).
\<close>

record rack_world =
  NewFromEnv :: "error option"
  ResourceProxy :: "string \<Rightarrow> string \<Rightarrow> error option"
  Stream :: "error option"

definition proxyRackTCP :: "rack_world \<Rightarrow> conn \<Rightarrow> url \<Rightarrow> error option \<times> event list" where
  "proxyRackTCP w cn target =
     (let parts = strings_Split (Path target) CHR ''/''
      in if length parts < 4 then (Some (InvalidRackEndpoint (Some target)), [ConnClose cn])
         else
           let app = parts ! 1; kind = parts ! 2;
               rp = strings_Split (parts ! 3) CHR '':''
           in if length rp < 2
              then (Some (InvalidEndpoint kind (parts ! 2)), [ConnClose cn])
              else
                let resource = rp ! 0
                in case NewFromEnv w of
                     Some err \<Rightarrow> (Some err, [RackNewFromEnv, ConnClose cn])
                   | None \<Rightarrow>
                       if kind = ''resource'' then
                         (case ResourceProxy w app resource of
                            Some err \<Rightarrow>
                              (Some err,
                               [RackNewFromEnv, RackResourceProxy app resource cn,
                                ConnClose cn])
                          | None \<Rightarrow>
                              (Stream w,
                               [RackNewFromEnv, RackResourceProxy app resource cn,
                                HelpersStream cn, TunnelClose, ConnClose cn]))
                       else (Some (UnknownProxyType kind), [RackNewFromEnv, ConnClose cn]))"

section \<open>Proxies and endpoints\<close>

text \<open>
  A \<^verbatim>\<open>Proxy\<close> holds its two URLs and a pointer to its \<^verbatim>\<open>Endpoint\<close>; the
  endpoint holds its host name and the map from listen port to proxy. The pointer is not
  a field here: the functions that follow it (\<^verbatim>\<open>Serve\<close>, \<^verbatim>\<open>ws\<close>) take the endpoint
  as an argument. \<open>EndpointHost\<close> is the field \<^verbatim>\<open>Host\<close> of \<^verbatim>\<open>Endpoint\<close>.
\<close>

record proxy =
  Listen :: url
  Target :: url

record endpoint =
  EndpointHost :: string
  Proxies :: "int \<rightharpoonup> proxy"

text \<open>
  \<^verbatim>\<open>NewProxy\<close> returns \<^verbatim>\<open>(*Proxy, error)\<close> and may store into \<^verbatim>\<open>e.Proxies\<close>: the
  model returns the pair and the endpoint afterwards.
\<close>

definition NewProxy ::
  "endpoint \<Rightarrow> string \<Rightarrow> url \<Rightarrow> url \<Rightarrow> (proxy option \<times> error option) \<times> endpoint" where
  "NewProxy e host listen target =
     (let p = \<lparr>Listen = listen, Target = target\<rparr>
      in case Atoi (Port listen) of
           Inl err \<Rightarrow> ((None, Some (NumError (Port listen) err)), e)
         | Inr pi \<Rightarrow>
             (case Proxies e pi of
                Some _ \<Rightarrow> ((None, Some (ProxyAlreadyExists pi)), e)
              | None \<Rightarrow> ((Some p, None), e\<lparr>Proxies := (Proxies e)(pi \<mapsto> p)\<rparr>)))"

definition proxyHTTP :: "url \<Rightarrow> url \<Rightarrow> handler option \<times> error option" where
  "proxyHTTP listen target =
     (if Hostname target = ''rack'' then
        (case proxyRackHTTP target of
           (h, Some err) \<Rightarrow> (None, Some err)
         | (h, None) \<Rightarrow> (h, None))
      else (Some (SingleHostReverseProxy target), None))"

section \<open>TCP forwarding\<close>

text \<open>
  A task started with \<^verbatim>\<open>go\<close> for one accepted connection: the connection, what the
  task returns and what it does.
\<close>

type_synonym task = "conn \<times> error option \<times> event list"

text \<open>
  \<^verbatim>\<open>proxyTCP\<close> loops for ever on \<^verbatim>\<open>listener.Accept()\<close>. The listener is the list
  of what its successive \<^verbatim>\<open>Accept\<close> calls return; after the last one \<^verbatim>\<open>Accept\<close>
  blocks. The rack client may answer each connection's task differently: \<open>w cn\<close>.
\<close>

fun proxyTCP ::
  "(conn \<Rightarrow> rack_world) \<Rightarrow> (error + conn) list \<Rightarrow> url \<Rightarrow>
     error option outcome \<times> event list \<times> task list" where
  "proxyTCP w [] target = (Blocked, [ListenerAccept], [])"
| "proxyTCP w (Inl err # rest) target = (Returned (Some err), [ListenerAccept], [])"
| "proxyTCP w (Inr cn # rest) target =
     (case proxyTCP w rest target of
        (r, evs, tasks) \<Rightarrow>
          (r, ListenerAccept # GoProxyRackTCP cn # evs,
           (cn, proxyRackTCP (w cn) cn target) # tasks))"

text \<open>
  The collaborators of \<^verbatim>\<open>proxyTCPConnection\<close>: what \<^verbatim>\<open>net.Dial("tcp", host)\<close> and
  \<^verbatim>\<open>helpers.Pipe(cn, oc)\<close> return.
\<close>

record net_world =
  Dial :: "string \<Rightarrow> error option"
  Pipe :: "error option"

definition proxyTCPConnection ::
  "net_world \<Rightarrow> rack_world \<Rightarrow> conn \<Rightarrow> url \<Rightarrow> error option \<times> event list" where
  "proxyTCPConnection n w cn target =
     (if Hostname target = ''rack'' then proxyRackTCP w cn target
      else
        case Dial n (Host target) of
          Some err \<Rightarrow> (Some err, [NetDial (Host target), ConnClose cn])
        | None \<Rightarrow>
            (Pipe n,
             [NetDial (Host target), HelpersPipe cn (Dialed (Host target)),
              ConnClose (Dialed (Host target)), ConnClose cn]))"

section \<open>Serving a proxy\<close>

text \<open>
  The collaborators of \<^verbatim>\<open>Serve\<close>: what \<^verbatim>\<open>net.Listen\<close> and
  \<^verbatim>\<open>generateCertificate\<close> return, whether and with what \<^verbatim>\<open>http.Serve\<close> returns,
  and what the listener's \<^verbatim>\<open>Accept\<close> calls return.
\<close>

record serve_world =
  ListenResult :: "error option"
  CertificateResult :: "error option"
  HTTPServeResult :: "error option outcome"
  Accepts :: "(error + conn) list"

definition Serve ::
  "serve_world \<Rightarrow> (conn \<Rightarrow> rack_world) \<Rightarrow> endpoint \<Rightarrow> proxy \<Rightarrow>
     error option outcome \<times> event list \<times> task list" where
  "Serve sw w e p =
     (case ListenResult sw of
        Some err \<Rightarrow> (Returned (Some err), [NetListen (Host (Listen p))], [])
      | None \<Rightarrow>
          let scheme = Scheme (Listen p);
              tls = (scheme = ''https'' \<or> scheme = ''tls'')
          in if tls \<and> CertificateResult sw \<noteq> None
             then (Returned (CertificateResult sw),
                   [NetListen (Host (Listen p)), GenerateCertificate (EndpointHost e),
                    ListenerClose], [])
             else
               let pre = NetListen (Host (Listen p)) #
                         (if tls then [GenerateCertificate (EndpointHost e), TLSNewListener]
                          else [])
               in if scheme = ''http'' \<or> scheme = ''https'' then
                    (case proxyHTTP (Listen p) (Target p) of
                       (h, Some err) \<Rightarrow> (Returned (Some err), pre @ [ListenerClose], [])
                     | (h, None) \<Rightarrow>
                         (case HTTPServeResult sw of
                            Blocked \<Rightarrow> (Blocked, pre @ [HTTPServe], [])
                          | Returned r \<Rightarrow> (Returned r, pre @ [HTTPServe, ListenerClose], [])))
                  else if scheme = ''tcp'' then
                    (case proxyTCP w (Accepts sw) (Target p) of
                       (Blocked, evs, tasks) \<Rightarrow> (Blocked, pre @ evs, tasks)
                     | (Returned r, evs, tasks) \<Rightarrow>
                         (Returned r, pre @ evs @ [ListenerClose], tasks))
                  else (Returned (Some (UnknownListenerScheme scheme)),
                        pre @ [ListenerClose], []))"

section \<open>Resolving a service backend\<close>

text \<open>
  \<^verbatim>\<open>types.Process\<close>, of which the router reads the field \<^verbatim>\<open>Id\<close>.
\<close>

record process =
  Id :: string

text \<open>
  \<^verbatim>\<open>math/rand.Intn(n)\<close> ends in \<^verbatim>\<open>v % n\<close> (or the equal \<^verbatim>\<open>v & (n-1)\<close> when \<open>n\<close>
  is a power of two), where \<open>v\<close> is the number its generator produced, drawn uniformly
  from a range whose size is a multiple of \<open>n\<close>.
\<close>

definition Intn :: "nat \<Rightarrow> nat \<Rightarrow> nat" where
  "Intn v n = v mod n"

text \<open>
  The collaborators of a backend resolution: what \<^verbatim>\<open>rack.NewFromEnv()\<close> and
  \<^verbatim>\<open>r.ProcessList(app, {Service: service})\<close> return, and the number the random
  generator produces in this call.
\<close>

record service_world =
  RackFromEnv :: "error option"
  ProcessList :: "string \<Rightarrow> string \<Rightarrow> error + process list"
  draw :: nat

text \<open>
  The function \<^verbatim>\<open>serviceTransport\<close> installs as \<^verbatim>\<open>tr.DialContext\<close>. It returns
  \<^verbatim>\<open>(net.Conn, error)\<close>. \<open>pss ! k\<close> is in range: \<open>k\<close> is a remainder modulo the
  positive length of \<open>pss\<close>.
\<close>

definition serviceTransport_DialContext ::
  "service_world \<Rightarrow> string \<Rightarrow> string \<Rightarrow> int \<Rightarrow> (conn option \<times> error option) \<times> event list"
  where
  "serviceTransport_DialContext w app service port =
     (case RackFromEnv w of
        Some err \<Rightarrow> ((None, Some err), [RackNewFromEnv])
      | None \<Rightarrow>
          (case ProcessList w app service of
             Inl err \<Rightarrow> ((None, Some err), [RackNewFromEnv, RackProcessList app service])
           | Inr pss \<Rightarrow>
               if length pss < 1
               then ((None, Some (NoProcessesAvailable service)),
                     [RackNewFromEnv, RackProcessList app service])
               else
                 let ps = pss ! Intn (draw w) (length pss)
                 in ((Some (PipeEnd (Id ps)), None),
                     [RackNewFromEnv, RackProcessList app service, RandIntn (length pss),
                      NetPipe, GoServiceProxy app (Id ps) port])))"

text \<open>The function \<^verbatim>\<open>ws\<close> installs as \<^verbatim>\<open>dialer.NetDial\<close>.\<close>

definition ws_NetDial ::
  "service_world \<Rightarrow> string \<Rightarrow> string \<Rightarrow> int \<Rightarrow> (conn option \<times> error option) \<times> event list"
  where
  "ws_NetDial w app service port =
     (case RackFromEnv w of
        Some err \<Rightarrow> ((None, Some err), [RackNewFromEnv])
      | None \<Rightarrow>
          (case ProcessList w app service of
             Inl err \<Rightarrow> ((None, Some err), [RackNewFromEnv, RackProcessList app service])
           | Inr pss \<Rightarrow>
               if length pss < 1
               then ((None, Some (NoProcessesAvailable service)),
                     [RackNewFromEnv, RackProcessList app service])
               else
                 let ps = pss ! Intn (draw w) (length pss)
                 in ((Some (NopDeadlineConn (PipeEnd (Id ps))), None),
                     [RackNewFromEnv, RackProcessList app service, RandIntn (length pss),
                      NetPipe, GoServiceProxy app (Id ps) port])))"

section \<open>WebSocket forwarding\<close>

text \<open>
  \<^verbatim>\<open>net/textproto.CanonicalMIMEHeaderKey\<close>: a key with a byte that is not a token
  character is returned as it is; otherwise the first letter and every letter after a
  hyphen become upper case and the other letters lower case.
\<close>

definition is_upper :: "char \<Rightarrow> bool" where
  "is_upper c = (65 \<le> (of_char c :: nat) \<and> (of_char c :: nat) \<le> 90)"

definition is_lower :: "char \<Rightarrow> bool" where
  "is_lower c = (97 \<le> (of_char c :: nat) \<and> (of_char c :: nat) \<le> 122)"

definition validHeaderFieldByte :: "char \<Rightarrow> bool" where
  "validHeaderFieldByte c =
     (is_digit c \<or> is_upper c \<or> is_lower c \<or>
      c \<in> set [CHR ''!'', CHR ''#'', CHR ''$'', CHR ''%'', CHR ''&'', CHR 0x27, CHR ''*'',
                CHR ''+'', CHR ''-'', CHR ''.'', CHR ''^'', CHR ''_'', CHR 0x60, CHR ''|'',
                CHR ''~''])"

fun canonical_loop :: "bool \<Rightarrow> string \<Rightarrow> string" where
  "canonical_loop upper [] = []"
| "canonical_loop upper (c # cs) =
     (let c1 = (if upper \<and> is_lower c then char_of ((of_char c :: nat) - 32)
                else if \<not> upper \<and> is_upper c then char_of ((of_char c :: nat) + 32)
                else c)
      in c1 # canonical_loop (c1 = CHR ''-'') cs)"

definition CanonicalMIMEHeaderKey :: "string \<Rightarrow> string" where
  "CanonicalMIMEHeaderKey s =
     (if list_all validHeaderFieldByte s then canonical_loop True s else s)"

text \<open>
  \<^verbatim>\<open>http.Header\<close> is a map from key to the list of its values. The header
  \<^verbatim>\<open>ws\<close> builds is a map here; the header of the request, which \<^verbatim>\<open>ws\<close> ranges
  over, is the list of its entries, in the order the \<^verbatim>\<open>range\<close> happens to visit
  them. \<^verbatim>\<open>Header.Add\<close> appends a value under the canonical form of the key.
\<close>

type_synonym header = "string \<rightharpoonup> string list"

definition Header_Add :: "header \<Rightarrow> string \<Rightarrow> string \<Rightarrow> header" where
  "Header_Add h key val =
     (let k = CanonicalMIMEHeaderKey key
      in h(k \<mapsto> (case h k of None \<Rightarrow> [] | Some vs \<Rightarrow> vs) @ [val]))"

record request =
  RemoteAddr :: string
  Header :: "(string \<times> string list) list"

text \<open>
  The body of the \<^verbatim>\<open>range r.Header\<close> loop of \<^verbatim>\<open>ws\<close>, for one entry of the
  request header.
\<close>

definition ws_step :: "string \<times> string list \<Rightarrow> header \<Rightarrow> header" where
  "ws_step = (\<lambda>(k, v) headers.
             if k = ''Upgrade'' \<or> k = ''Connection'' \<or> k = ''Sec-Websocket-Key'' \<or>
                k = ''Sec-Websocket-Version'' \<or> k = ''Sec-Websocket-Extensions'' \<or>
                k = ''Sec-Websocket-Protocol''
             then headers
             else fold (\<lambda>s h. Header_Add h k s) v headers)"

text \<open>Lines 362 to 376 of \<^verbatim>\<open>ws\<close>: the header handed to \<^verbatim>\<open>dialer.Dial\<close>.\<close>

definition ws_headers :: "proxy \<Rightarrow> request \<Rightarrow> header" where
  "ws_headers p r =
     fold ws_step (Header r)
          (Header_Add
             (Header_Add
                (Header_Add Map.empty ''X-Forwarded-For'' (RemoteAddr r))
                ''X-Forwarded-Port'' (Port (Listen p)))
             ''X-Forwarded-Proto'' (Scheme (Listen p)))"

text \<open>
  To state what the header contains: \<open>has h k v\<close> when \<open>v\<close> is one of the values of
  key \<open>k\<close>; the six negotiation headers as the spec spells them and the six keys as the
  source spells them; ASCII lower case, to compare names whatever their letter case.
\<close>

definition has :: "header \<Rightarrow> string \<Rightarrow> string \<Rightarrow> bool" where
  "has h k v = (\<exists>vs. h k = Some vs \<and> v \<in> set vs)"

definition negotiation_headers :: "string list" where
  "negotiation_headers =
     [''Upgrade'', ''Connection'', ''Sec-WebSocket-Key'', ''Sec-WebSocket-Version'',
      ''Sec-WebSocket-Extensions'', ''Sec-WebSocket-Protocol'']"

definition skipped :: "string set" where
  "skipped = {''Upgrade'', ''Connection'', ''Sec-Websocket-Key'', ''Sec-Websocket-Version'',
      ''Sec-Websocket-Extensions'', ''Sec-Websocket-Protocol''}"

definition to_lower :: "char \<Rightarrow> char" where
  "to_lower c = (if is_upper c then char_of ((of_char c :: nat) + 32) else c)"

text \<open>
  The collaborators of the handler \<^verbatim>\<open>ws\<close> returns: what \<^verbatim>\<open>upgrader.Upgrade\<close> and
  \<^verbatim>\<open>dialer.Dial\<close> return, and the values the two copy tasks send on \<^verbatim>\<open>errc\<close>, in
  the order they are sent (none when neither copy ever ends).
\<close>

record ws_world =
  UpgradeResult :: "error option"
  WsDialResult :: "error option"
  Completions :: "error option list"

text \<open>
  The handler returns nothing; the model gives whether it returns, what it does, and the
  header it handed to \<^verbatim>\<open>dialer.Dial\<close> if it got there. The arguments \<^verbatim>\<open>app\<close>,
  \<^verbatim>\<open>service\<close> and \<^verbatim>\<open>port\<close> of \<^verbatim>\<open>ws\<close> reach only the dialer's
  \<^verbatim>\<open>NetDial\<close>, which is \<open>ws_NetDial\<close> above; here the result of
  \<^verbatim>\<open>dialer.Dial\<close> as a whole is given by \<open>WsDialResult\<close>.
\<close>

definition ws ::
  "ws_world \<Rightarrow> proxy \<Rightarrow> request \<Rightarrow> unit outcome \<times> event list \<times> header option" where
  "ws w p r =
     (case UpgradeResult w of
        Some err \<Rightarrow> (Returned (), [Upgrade, Printf ''ws.upgrader''], None)
      | None \<Rightarrow>
          let headers = ws_headers p r
          in case WsDialResult w of
               Some err \<Rightarrow> (Returned (), [Upgrade, WsDial, Printf ''ws.dial''], Some headers)
             | None \<Rightarrow>
                 (case Completions w of
                    [] \<Rightarrow>
                      (Blocked,
                       [Upgrade, WsDial, GoCopy Frontend Backend, GoCopy Backend Frontend],
                       Some headers)
                  | err # rest \<Rightarrow>
                      (Returned (),
                       [Upgrade, WsDial, GoCopy Frontend Backend, GoCopy Backend Frontend,
                        ChanReceive err] @
                       (if err \<noteq> None then [Printf ''ws.cp''] else []),
                       Some headers)))"

section \<open>JSON form of a proxy\<close>

text \<open>
  \<^verbatim>\<open>URL.String()\<close> of \<^verbatim>\<open>net/url\<close>, for a URL whose other fields (\<^verbatim>\<open>Opaque\<close>,
  \<^verbatim>\<open>User\<close>, \<^verbatim>\<open>RawPath\<close>, \<^verbatim>\<open>RawQuery\<close>, \<^verbatim>\<open>Fragment\<close>) are empty:
  \<^verbatim>\<open>shouldEscape\<close> in the modes \<^verbatim>\<open>encodeHost\<close> and \<^verbatim>\<open>encodePath\<close>,
  \<^verbatim>\<open>escape\<close> (percent-encoding with upper-case hexadecimal digits) and
  \<^verbatim>\<open>EscapedPath\<close>.
\<close>

definition is_alnum :: "char \<Rightarrow> bool" where
  "is_alnum c = (is_lower c \<or> is_upper c \<or> is_digit c)"

definition shouldEscape_host :: "char \<Rightarrow> bool" where
  "shouldEscape_host c =
     (\<not> is_alnum c \<and>
      c \<notin> set [CHR ''!'', CHR ''$'', CHR ''&'', CHR 0x27, CHR ''('', CHR '')'', CHR ''*'',
                CHR ''+'', CHR '','', CHR '';'', CHR ''='', CHR '':'', CHR ''['', CHR '']'',
                CHR ''<'', CHR ''>'', CHR 0x22] \<and>
      c \<notin> set [CHR ''-'', CHR ''_'', CHR ''.'', CHR ''~''])"

definition shouldEscape_path :: "char \<Rightarrow> bool" where
  "shouldEscape_path c =
     (\<not> is_alnum c \<and>
      c \<notin> set [CHR ''-'', CHR ''_'', CHR ''.'', CHR ''~''] \<and>
      (if c \<in> set [CHR ''$'', CHR ''&'', CHR ''+'', CHR '','', CHR ''/'', CHR '':'',
                    CHR '';'', CHR ''='', CHR ''?'', CHR ''@'']
       then c = CHR ''?'' else True))"

definition upperhex :: "nat \<Rightarrow> char" where
  "upperhex n = ''0123456789ABCDEF'' ! n"

definition escape :: "(char \<Rightarrow> bool) \<Rightarrow> string \<Rightarrow> string" where
  "escape should s =
     concat (map (\<lambda>c. if should c
                       then [CHR ''%'', upperhex ((of_char c :: nat) div 16),
                             upperhex ((of_char c :: nat) mod 16)]
                       else [c]) s)"

definition EscapedPath :: "url \<Rightarrow> string" where
  "EscapedPath u = (if Path u = ''*'' then ''*'' else escape shouldEscape_path (Path u))"

definition url_String :: "url \<Rightarrow> string" where
  "url_String u =
     (let buf0 = (if Scheme u \<noteq> [] then Scheme u @ '':'' else []);
          buf1 = (if Scheme u \<noteq> [] \<or> Host u \<noteq> []
                  then buf0 @ (if Host u \<noteq> [] \<or> Path u \<noteq> [] then ''//'' else []) @
                       (if Host u \<noteq> [] then escape shouldEscape_host (Host u) else [])
                  else buf0);
          path = EscapedPath u;
          buf2 = (if path \<noteq> [] \<and> hd path \<noteq> CHR ''/'' \<and> Host u \<noteq> []
                  then buf1 @ ''/'' else buf1);
          buf3 = (if buf2 = [] \<and> CHR '':'' \<in> set (takeWhile (\<lambda>c. c \<noteq> CHR ''/'') path)
                  then buf2 @ ''./'' else buf2)
      in buf3 @ path)"

text \<open>
  The string encoder of \<^verbatim>\<open>encoding/json\<close> with HTML escaping, as \<^verbatim>\<open>json.Marshal\<close>
  uses it. \<open>rune_size\<close> is the length of the UTF-8 sequence at the head of the bytes as
  \<^verbatim>\<open>utf8.DecodeRuneInString\<close> accepts it, 0 when it is not valid. (Releases of Go
  from 1.22 write \<^verbatim>\<open>\b\<close> and \<^verbatim>\<open>\f\<close> for the bytes 8 and 12; the older form is
  modelled.)
\<close>

definition lowerhex :: "nat \<Rightarrow> char" where
  "lowerhex n = ''0123456789abcdef'' ! n"

definition cont :: "nat \<Rightarrow> nat \<Rightarrow> nat \<Rightarrow> bool" where
  "cont lo hi b = (lo \<le> b \<and> b \<le> hi)"

fun rune_size :: "nat list \<Rightarrow> nat" where
  "rune_size [] = 0"
| "rune_size (b0 # bs) =
     (if 0xC2 \<le> b0 \<and> b0 \<le> 0xDF then
        (case bs of b1 # _ \<Rightarrow> if cont 0x80 0xBF b1 then 2 else 0 | _ \<Rightarrow> 0)
      else if 0xE0 \<le> b0 \<and> b0 \<le> 0xEF then
        (case bs of
           b1 # b2 # _ \<Rightarrow>
             if cont (if b0 = 0xE0 then 0xA0 else 0x80) (if b0 = 0xED then 0x9F else 0xBF) b1
                \<and> cont 0x80 0xBF b2
             then 3 else 0
         | _ \<Rightarrow> 0)
      else if 0xF0 \<le> b0 \<and> b0 \<le> 0xF4 then
        (case bs of
           b1 # b2 # b3 # _ \<Rightarrow>
             if cont (if b0 = 0xF0 then 0x90 else 0x80) (if b0 = 0xF4 then 0x8F else 0xBF) b1
                \<and> cont 0x80 0xBF b2 \<and> cont 0x80 0xBF b3
             then 4 else 0
         | _ \<Rightarrow> 0)
      else 0)"

definition htmlSafe :: "nat \<Rightarrow> bool" where
  "htmlSafe b = (0x20 \<le> b \<and> b < 0x80 \<and> b \<notin> {0x22, 0x26, 0x3C, 0x3E, 0x5C})"

definition json_escape_byte :: "char \<Rightarrow> string" where
  "json_escape_byte c =
     (let b = (of_char c :: nat)
      in if htmlSafe b then [c]
         else if b = 0x5C \<or> b = 0x22 then [CHR 0x5C, c]
         else if b = 0x0A then [CHR 0x5C, CHR ''n'']
         else if b = 0x0D then [CHR 0x5C, CHR ''r'']
         else if b = 0x09 then [CHR 0x5C, CHR ''t'']
         else [CHR 0x5C, CHR ''u'', CHR ''0'', CHR ''0'', lowerhex (b div 16),
               lowerhex (b mod 16)])"

function json_string_body :: "string \<Rightarrow> string" where
  "json_string_body [] = []"
| "json_string_body (c # cs) =
     (if (of_char c :: nat) < 0x80 then json_escape_byte c @ json_string_body cs
      else
        let n = rune_size (map of_char (c # cs))
        in if n = 0
           then [CHR 0x5C, CHR ''u'', CHR ''f'', CHR ''f'', CHR ''f'', CHR ''d''] @
                json_string_body cs
           else if n = 3 \<and> (of_char c :: nat) = 0xE2 \<and> (of_char (cs ! 0) :: nat) = 0x80 \<and>
                   ((of_char (cs ! 1) :: nat) = 0xA8 \<or> (of_char (cs ! 1) :: nat) = 0xA9)
           then [CHR 0x5C, CHR ''u'', CHR ''2'', CHR ''0'', CHR ''2'',
                 lowerhex ((of_char (cs ! 1) :: nat) mod 16)] @
                json_string_body (drop 2 cs)
           else take n (c # cs) @ json_string_body (drop (n - 1) cs))"
  by pat_completeness auto
termination
  by (relation "measure length") auto

definition json_string :: "string \<Rightarrow> string" where
  "json_string s = [CHR 0x22] @ json_string_body s @ [CHR 0x22]"

text \<open>
  \<^verbatim>\<open>json.Marshal\<close> of a \<^verbatim>\<open>map[string]string\<close>, given as the list of its entries:
  an object whose members come in the order of their keys. It returns
  \<^verbatim>\<open>([]byte, error)\<close>, and no error on such a map.
\<close>

fun json_members :: "(string \<times> string) list \<Rightarrow> string" where
  "json_members [] = []"
| "json_members [(k, v)] = json_string k @ '':'' @ json_string v"
| "json_members ((k, v) # kvs) =
     json_string k @ '':'' @ json_string v @ '','' @ json_members kvs"

definition json_Marshal :: "(string \<times> string) list \<Rightarrow> string \<times> error option" where
  "json_Marshal m = (''{'' @ json_members (sort_key fst m) @ ''}'', None)"

definition MarshalJSON :: "proxy \<Rightarrow> string \<times> error option" where
  "MarshalJSON p =
     json_Marshal [(''listen'', url_String (Listen p)), (''target'', url_String (Target p))]"

section \<open>Build hash of a manifest service\<close>

text \<open>
  \<^verbatim>\<open>Service\<close> and \<^verbatim>\<open>ServiceBuild\<close> of the package \<^verbatim>\<open>manifest\<close>.
  \<open>BuildPath\<close> is the field \<^verbatim>\<open>Path\<close> of \<^verbatim>\<open>ServiceBuild\<close>.
\<close>

record service_build =
  Args :: "string list"
  BuildPath :: string

record service =
  Name :: string
  Build :: service_build
  Environment :: "string list"
  Image :: string
  Test :: string

text \<open>
  The verbs of \<^verbatim>\<open>fmt\<close>: \<^verbatim>\<open>%v\<close> writes a slice of strings between brackets, its
  elements separated by one space; \<^verbatim>\<open>%x\<close> writes each byte of the digest as two
  lower-case hexadecimal digits. \<^verbatim>\<open>%q\<close> is \<^verbatim>\<open>strconv.Quote\<close> and the digest is
  \<^verbatim>\<open>sha1.Sum\<close>: library functions, which \<open>BuildHash\<close> takes as arguments.
\<close>

fun join_space :: "string list \<Rightarrow> string" where
  "join_space [] = []"
| "join_space [x] = x"
| "join_space (x # xs) = x @ '' '' @ join_space xs"

definition fmt_v :: "string list \<Rightarrow> string" where
  "fmt_v xs = ''['' @ join_space xs @ '']''"

definition fmt_x :: "string \<Rightarrow> string" where
  "fmt_x bs =
     concat (map (\<lambda>c. [lowerhex ((of_char c :: nat) div 16),
                        lowerhex ((of_char c :: nat) mod 16)]) bs)"

definition BuildHash :: "(string \<Rightarrow> string) \<Rightarrow> (string \<Rightarrow> string) \<Rightarrow> service \<Rightarrow> string" where
  "BuildHash sha1_Sum Quote s =
     fmt_x (sha1_Sum (''build[path='' @ Quote (BuildPath (Build s)) @ '', args='' @
                      fmt_v (Args (Build s)) @ ''] image='' @ Quote (Image s)))"

section \<open>Properties\<close>

subsection \<open>Library facts\<close>

lemma strings_Split_nonempty: "strings_Split s sep \<noteq> []"
  by (induction s) (auto simp: Let_def)

lemma length_strings_Split: "length (strings_Split s sep) = Suc (count_list s sep)"
proof (induction s)
  case Nil
  show ?case by simp
next
  case (Cons c cs)
  have "length (tl (strings_Split cs sep)) = count_list cs sep"
    using Cons.IH by simp
  with Cons.IH show ?case by (simp add: Let_def)
qed

subsection \<open>Target paths\<close>

text \<open>
  Claim C4, as the code has it. For every target path, with \<open>parts\<close> its
  \<^verbatim>\<open>/\<close>-separated segments and \<open>sel\<close> the \<^verbatim>\<open>:\<close>-separated tokens of the fourth
  segment, both rack forwarders
  \<^item> fail with \<open>InvalidRackEndpoint\<close> (MalformedPath) when there are fewer than 4
    segments;
  \<^item> fail with \<open>InvalidEndpoint\<close> (MalformedInstanceSelector) when there are at least
    4 segments and fewer than 2 tokens;
  \<^item> fail with \<open>UnknownProxyType\<close> (UnknownKind) when both checks pass, the kind is
    neither \<^verbatim>\<open>service\<close> nor \<^verbatim>\<open>resource\<close>, and the step the code takes before it
    looks at the kind succeeds: \<^verbatim>\<open>strconv.Atoi\<close> on the port token in the HTTP
    forwarder, \<^verbatim>\<open>rack.NewFromEnv\<close> in the TCP forwarder;
  \<^item> return that step's own error when both checks pass and the step fails, whatever
    the kind: \<open>NumError\<close> on the port token from the HTTP forwarder, the error of
    \<^verbatim>\<open>rack.NewFromEnv\<close> from the TCP forwarder, which has then done nothing but
    close the connection.
  The HTTP forwarder returns an error exactly when it returns no handler, and a handler
  it returns is made of the path's own app, name and port. The TCP forwarder, on the
  first two failures, closes the connection and does nothing else.
\<close>

theorem target_parse_errors:
  fixes target :: url and w :: rack_world and cn :: conn
  defines "parts \<equiv> strings_Split (Path target) CHR ''/''"
  defines "sel \<equiv> strings_Split (parts ! 3) CHR '':''"
  shows
    "(length parts < 4 \<longrightarrow>
        proxyRackHTTP target = (None, Some (InvalidRackEndpoint None)) \<and>
        proxyRackTCP w cn target =
          (Some (InvalidRackEndpoint (Some target)), [ConnClose cn]))
   \<and> (4 \<le> length parts \<and> length sel < 2 \<longrightarrow>
        proxyRackHTTP target = (None, Some (InvalidEndpoint (parts ! 2) (parts ! 2))) \<and>
        proxyRackTCP w cn target =
          (Some (InvalidEndpoint (parts ! 2) (parts ! 2)), [ConnClose cn]))
   \<and> (4 \<le> length parts \<and> 2 \<le> length sel \<and>
       parts ! 2 \<notin> {''service'', ''resource''} \<longrightarrow>
        (\<forall>pi. Atoi (sel ! 1) = Inr pi \<longrightarrow>
           proxyRackHTTP target = (None, Some (UnknownProxyType (parts ! 2)))) \<and>
        (NewFromEnv w = None \<longrightarrow>
           proxyRackTCP w cn target =
             (Some (UnknownProxyType (parts ! 2)), [RackNewFromEnv, ConnClose cn])))
   \<and> (4 \<le> length parts \<and> 2 \<le> length sel \<longrightarrow>
        (\<forall>e. Atoi (sel ! 1) = Inl e \<longrightarrow>
           proxyRackHTTP target = (None, Some (NumError (sel ! 1) e))) \<and>
        (\<forall>err. NewFromEnv w = Some err \<longrightarrow>
           proxyRackTCP w cn target = (Some err, [RackNewFromEnv, ConnClose cn])))
   \<and> (snd (proxyRackHTTP target) \<noteq> None \<longrightarrow> fst (proxyRackHTTP target) = None)
   \<and> (fst (proxyRackHTTP target) = None \<longrightarrow> snd (proxyRackHTTP target) \<noteq> None)
   \<and> (\<forall>h. fst (proxyRackHTTP target) = Some h \<longrightarrow>
        4 \<le> length parts \<and> 2 \<le> length sel \<and>
        (\<exists>pi. Atoi (sel ! 1) = Inr pi \<and> h = RackMux (parts ! 1) (sel ! 0) pi))"
  unfolding parts_def sel_def
  by (auto simp: proxyRackHTTP_def proxyRackTCP_def Let_def split: sum.splits option.splits)

theorem target_parse_errors_witness:
  "length (strings_Split ''/app'' CHR ''/'') < 4
   \<and> proxyRackHTTP \<lparr>Scheme = ''http'', Host = ''rack'', Path = ''/app''\<rparr>
       = (None, Some (InvalidRackEndpoint None))
   \<and> 4 \<le> length (strings_Split ''/app/job/web:80'' CHR ''/'')
   \<and> 2 \<le> length (strings_Split ''web:80'' CHR '':'')
   \<and> Atoi ''80'' = Inr 80
   \<and> proxyRackHTTP \<lparr>Scheme = ''http'', Host = ''rack'', Path = ''/app/job/web:80''\<rparr>
       = (None, Some (UnknownProxyType ''job''))
   \<and> proxyRackTCP \<lparr>NewFromEnv = None, ResourceProxy = (\<lambda>a r. None), Stream = None\<rparr>
        (Accepted 0) \<lparr>Scheme = ''tcp'', Host = ''rack'', Path = ''/app/job/web:80''\<rparr>
       = (Some (UnknownProxyType ''job''), [RackNewFromEnv, ConnClose (Accepted 0)])
   \<and> 4 \<le> length (strings_Split ''/app/job/web:abc'' CHR ''/'')
   \<and> 2 \<le> length (strings_Split ''web:abc'' CHR '':'')
   \<and> Atoi ''abc'' = Inl ErrSyntax
   \<and> proxyRackHTTP \<lparr>Scheme = ''http'', Host = ''rack'', Path = ''/app/job/web:abc''\<rparr>
       = (None, Some (NumError ''abc'' ErrSyntax))
   \<and> proxyRackTCP
        \<lparr>NewFromEnv = Some (External ''no rack''), ResourceProxy = (\<lambda>a r. None),
         Stream = None\<rparr>
        (Accepted 0) \<lparr>Scheme = ''tcp'', Host = ''rack'', Path = ''/app/job/web:80''\<rparr>
       = (Some (External ''no rack''), [RackNewFromEnv, ConnClose (Accepted 0)])"
proof -
  have a: "Atoi ''80'' = Inr 80"
    by (simp add: Atoi_def ParseUint_def is_digit_def)
  have b: "Atoi ''abc'' = Inl ErrSyntax"
    by (simp add: Atoi_def ParseUint_def is_digit_def)
  show ?thesis
    using a b
      target_parse_errors
        [where target = "\<lparr>Scheme = ''http'', Host = ''rack'', Path = ''/app''\<rparr>"]
      target_parse_errors
        [where target = "\<lparr>Scheme = ''http'', Host = ''rack'', Path = ''/app/job/web:80''\<rparr>"]
      target_parse_errors
        [where target = "\<lparr>Scheme = ''http'', Host = ''rack'', Path = ''/app/job/web:abc''\<rparr>"]
      target_parse_errors
        [where target = "\<lparr>Scheme = ''tcp'', Host = ''rack'', Path = ''/app/job/web:80''\<rparr>"
           and w = "\<lparr>NewFromEnv = None, ResourceProxy = (\<lambda>a r. None), Stream = None\<rparr>"
           and cn = "Accepted 0"]
      target_parse_errors
        [where target = "\<lparr>Scheme = ''tcp'', Host = ''rack'', Path = ''/app/job/web:80''\<rparr>"
           and w = "\<lparr>NewFromEnv = Some (External ''no rack''),
                      ResourceProxy = (\<lambda>a r. None), Stream = None\<rparr>"
           and cn = "Accepted 0"]
    by (simp add: Let_def)
qed

text \<open>
  Claim C4 as the spec states it fails: the path \<^verbatim>\<open>/app/job/web:abc\<close> has four
  segments, a selector of two tokens and a kind that is neither \<^verbatim>\<open>service\<close> nor
  \<^verbatim>\<open>resource\<close>, and the HTTP forwarder fails on it with the error of
  \<^verbatim>\<open>strconv.Atoi\<close>, not with \<open>UnknownProxyType\<close>.
\<close>

theorem target_parse_errors_counterexample:
  "strings_Split ''/app/job/web:abc'' CHR ''/'' = [[], ''app'', ''job'', ''web:abc'']
   \<and> strings_Split ''web:abc'' CHR '':'' = [''web'', ''abc'']
   \<and> ''job'' \<notin> {''service'', ''resource''}
   \<and> proxyRackHTTP \<lparr>Scheme = ''http'', Host = ''rack'', Path = ''/app/job/web:abc''\<rparr>
       = (None, Some (NumError ''abc'' ErrSyntax))
   \<and> proxyRackHTTP \<lparr>Scheme = ''http'', Host = ''rack'', Path = ''/app/job/web:abc''\<rparr>
       \<noteq> (None, Some (UnknownProxyType ''job''))"
  by (simp add: proxyRackHTTP_def Atoi_def ParseUint_def is_digit_def Let_def)



subsection \<open>The port map of an endpoint\<close>

lemma Port_5000:
  "Port \<lparr>Scheme = ''tcp'', Host = ''0.0.0.0:5000'', Path = ''''\<rparr> = ''5000''"
  by (simp add: Port_def splitHostPort_def validOptionalPort_def is_digit_def)

lemma Atoi_5000: "Atoi ''5000'' = Inr 5000"
  by (simp add: Atoi_def ParseUint_def is_digit_def)

text \<open>
  Claim C5. For every endpoint \<open>e\<close> and port \<open>pn\<close>:
  \<^item> when \<^verbatim>\<open>NewProxy\<close> has registered a proxy on \<open>pn\<close>, a second \<^verbatim>\<open>NewProxy\<close> whose
    listen port is \<open>pn\<close> fails with \<open>ProxyAlreadyExists pn\<close> (PortConflict) and leaves
    the endpoint as it was, the first proxy still registered with its own URLs;
  \<^item> the same holds from any endpoint that has \<open>pn\<close> bound;
  \<^item> no call of \<^verbatim>\<open>NewProxy\<close>, whatever its port, changes an existing binding;
  \<^item> a call that succeeds binds a port that was free.
  So a port never gets a second proxy.
\<close>

theorem port_conflict:
  "(\<forall>p1 e1. NewProxy e h1 l1 t1 = ((Some p1, None), e1) \<and>
        Atoi (Port l1) = Inr pn \<and> Atoi (Port l2) = Inr pn \<longrightarrow>
        NewProxy e1 h2 l2 t2 = ((None, Some (ProxyAlreadyExists pn)), e1) \<and>
        Proxies e1 pn = Some p1 \<and> p1 = \<lparr>Listen = l1, Target = t1\<rparr>)
   \<and> (\<forall>q. Proxies e pn = Some q \<and> Atoi (Port l2) = Inr pn \<longrightarrow>
        NewProxy e h2 l2 t2 = ((None, Some (ProxyAlreadyExists pn)), e))
   \<and> (\<forall>q. Proxies e pn = Some q \<longrightarrow>
        Proxies (snd (NewProxy e h2 l2 t2)) pn = Some q)
   \<and> (\<forall>p e'. NewProxy e h2 l2 t2 = ((Some p, None), e') \<longrightarrow>
        (\<exists>pi. Atoi (Port l2) = Inr pi \<and> Proxies e pi = None \<and>
              Proxies e' = (Proxies e)(pi \<mapsto> p)))"
  by (auto simp: NewProxy_def Let_def split: sum.splits option.splits)

theorem port_conflict_witness:
  "NewProxy \<lparr>EndpointHost = ''web.convox'', Proxies = Map.empty\<rparr> ''web.convox''
      \<lparr>Scheme = ''tcp'', Host = ''0.0.0.0:5000'', Path = ''''\<rparr>
      \<lparr>Scheme = ''tcp'', Host = ''rack'', Path = ''/myapp/service/web:3000''\<rparr>
    = ((Some \<lparr>Listen = \<lparr>Scheme = ''tcp'', Host = ''0.0.0.0:5000'', Path = ''''\<rparr>,
              Target = \<lparr>Scheme = ''tcp'', Host = ''rack'',
                         Path = ''/myapp/service/web:3000''\<rparr>\<rparr>, None),
       \<lparr>EndpointHost = ''web.convox'',
        Proxies = [5000 \<mapsto>
          \<lparr>Listen = \<lparr>Scheme = ''tcp'', Host = ''0.0.0.0:5000'', Path = ''''\<rparr>,
           Target = \<lparr>Scheme = ''tcp'', Host = ''rack'',
                      Path = ''/myapp/service/web:3000''\<rparr>\<rparr>]\<rparr>)
   \<and> Atoi (Port \<lparr>Scheme = ''tcp'', Host = ''0.0.0.0:5000'', Path = ''''\<rparr>) = Inr 5000
   \<and> NewProxy
        \<lparr>EndpointHost = ''web.convox'',
         Proxies = [5000 \<mapsto>
           \<lparr>Listen = \<lparr>Scheme = ''tcp'', Host = ''0.0.0.0:5000'', Path = ''''\<rparr>,
            Target = \<lparr>Scheme = ''tcp'', Host = ''rack'',
                       Path = ''/myapp/service/web:3000''\<rparr>\<rparr>]\<rparr>
        ''web.convox''
        \<lparr>Scheme = ''tcp'', Host = ''0.0.0.0:5000'', Path = ''''\<rparr>
        \<lparr>Scheme = ''tcp'', Host = ''10.0.0.1:80'', Path = ''''\<rparr>
      = ((None, Some (ProxyAlreadyExists 5000)),
         \<lparr>EndpointHost = ''web.convox'',
          Proxies = [5000 \<mapsto>
            \<lparr>Listen = \<lparr>Scheme = ''tcp'', Host = ''0.0.0.0:5000'', Path = ''''\<rparr>,
             Target = \<lparr>Scheme = ''tcp'', Host = ''rack'',
                        Path = ''/myapp/service/web:3000''\<rparr>\<rparr>]\<rparr>)"
proof -
  let ?l = "\<lparr>Scheme = ''tcp'', Host = ''0.0.0.0:5000'', Path = ''''\<rparr>"
  let ?t = "\<lparr>Scheme = ''tcp'', Host = ''rack'', Path = ''/myapp/service/web:3000''\<rparr>"
  let ?e = "\<lparr>EndpointHost = ''web.convox'', Proxies = Map.empty\<rparr>"
  have a: "Atoi (Port ?l) = Inr 5000"
    by (simp add: Port_5000 Atoi_5000)
  have first: "NewProxy ?e ''web.convox'' ?l ?t
      = ((Some \<lparr>Listen = ?l, Target = ?t\<rparr>, None),
         \<lparr>EndpointHost = ''web.convox'',
          Proxies = [5000 \<mapsto> \<lparr>Listen = ?l, Target = ?t\<rparr>]\<rparr>)"
    by (simp add: NewProxy_def Let_def a)
  show ?thesis
    using a first
      port_conflict [where e = ?e and ?h1.0 = "''web.convox''" and ?l1.0 = ?l
        and ?t1.0 = ?t and pn = 5000 and ?l2.0 = ?l and ?h2.0 = "''web.convox''"
        and ?t2.0 = "\<lparr>Scheme = ''tcp'', Host = ''10.0.0.1:80'', Path = ''''\<rparr>"]
    by simp
qed

subsection \<open>Serving\<close>

text \<open>
  Claim C2 fails on the code. For every proxy whose listen scheme is \<^verbatim>\<open>tls\<close>, once
  the listener is bound and the certificate issued, \<^verbatim>\<open>Serve\<close> wraps the listener with
  TLS and then returns \<^verbatim>\<open>unknown listener scheme: tls\<close>: the second \<^verbatim>\<open>switch\<close> has
  no case for \<^verbatim>\<open>tls\<close>, so no connection is ever accepted.
\<close>

theorem Serve_tls_unknown_scheme:
  "Serve (sw\<lparr>ListenResult := None, CertificateResult := None\<rparr>) w e
         (p\<lparr>Listen := (Listen p)\<lparr>Scheme := ''tls''\<rparr>\<rparr>)
   = (Returned (Some (UnknownListenerScheme ''tls'')),
      [NetListen (Host (Listen p)), GenerateCertificate (EndpointHost e), TLSNewListener,
       ListenerClose], [])"
  by (simp add: Serve_def Let_def)

subsection \<open>TCP forwarding\<close>

lemma proxyRackTCP_no_dial: "NetDial h \<notin> set (snd (proxyRackTCP w cn target))"
  by (simp add: proxyRackTCP_def Let_def split: option.splits)

lemma proxyTCP_tasks:
  "t \<in> set (snd (snd (proxyTCP w acc target))) \<Longrightarrow>
   \<exists>cn. t = (cn, proxyRackTCP (w cn) cn target)"
  by (induction w acc target rule: proxyTCP.induct) (auto split: prod.splits)

lemma proxyTCP_never_dials:
  "(cn, r, evs) \<in> set (snd (snd (proxyTCP w acc target))) \<Longrightarrow> NetDial h \<notin> set evs"
  using proxyTCP_tasks [of "(cn, r, evs)" w acc target] proxyRackTCP_no_dial [of h _ cn target]
  by (metis prod.inject snd_conv)

text \<open>
  Claim C1 fails on the code. \<^verbatim>\<open>proxyTCP\<close> starts \<^verbatim>\<open>proxyRackTCP\<close> for every accepted
  connection, whatever the target's host name. With the direct target
  \<^verbatim>\<open>tcp://127.0.0.1:9000\<close> the task finds fewer than four path segments, returns
  \<^verbatim>\<open>invalid rack endpoint\<close> and closes the connection; nothing is dialed and no byte is
  relayed. \<^verbatim>\<open>proxyTCPConnection\<close>, which nothing calls, is the function that dials
  the target host on the same input.
\<close>

theorem proxyTCP_direct_target:
  "proxyTCP w [Inr (Accepted 0)] \<lparr>Scheme = ''tcp'', Host = ''127.0.0.1:9000'', Path = ''''\<rparr>
   = (Blocked, [ListenerAccept, GoProxyRackTCP (Accepted 0), ListenerAccept],
      [(Accepted 0,
        Some (InvalidRackEndpoint
               (Some \<lparr>Scheme = ''tcp'', Host = ''127.0.0.1:9000'', Path = ''''\<rparr>)),
        [ConnClose (Accepted 0)])])
   \<and> Hostname \<lparr>Scheme = ''tcp'', Host = ''127.0.0.1:9000'', Path = ''''\<rparr> = ''127.0.0.1''
   \<and> proxyTCPConnection \<lparr>Dial = (\<lambda>h. None), Pipe = None\<rparr> (w (Accepted 0)) (Accepted 0)
        \<lparr>Scheme = ''tcp'', Host = ''127.0.0.1:9000'', Path = ''''\<rparr>
      = (None, [NetDial ''127.0.0.1:9000'',
                HelpersPipe (Accepted 0) (Dialed ''127.0.0.1:9000''),
                ConnClose (Dialed ''127.0.0.1:9000''), ConnClose (Accepted 0)])"
  by (simp add: proxyRackTCP_def proxyTCPConnection_def Hostname_def splitHostPort_def
        validOptionalPort_def is_digit_def Let_def)

subsection \<open>Resolving a service backend\<close>

lemma Intn_less: "0 < n \<Longrightarrow> Intn v n < n"
  by (simp add: Intn_def)

text \<open>
  Among the numbers below any multiple of \<open>n\<close>, each remainder has the same number of
  preimages: a generator uniform on such a range makes \<^verbatim>\<open>Intn\<close> uniform on the indices.
\<close>

lemma Intn_uniform:
  assumes "i < n"
  shows "card {v. v < m * n \<and> Intn v n = i} = m"
proof -
  have "{v. v < m * n \<and> v mod n = i} = (\<lambda>q. q * n + i) ` {..<m}"
  proof (intro set_eqI iffI)
    fix v assume "v \<in> {v. v < m * n \<and> v mod n = i}"
    then have v: "v < m * n" "v mod n = i" by auto
    have "v = (v div n) * n + i" using v(2) by (metis div_mult_mod_eq)
    moreover have "v div n < m" using v(1) assms
      by (simp add: less_mult_imp_div_less)
    ultimately show "v \<in> (\<lambda>q. q * n + i) ` {..<m}" by blast
  next
    fix v assume "v \<in> (\<lambda>q. q * n + i) ` {..<m}"
    then obtain q where q: "q < m" "v = q * n + i" by auto
    have "q * n + i < m * n"
    proof -
      have "q * n + i < q * n + n" using assms by simp
      also have "\<dots> = (Suc q) * n" by simp
      also have "\<dots> \<le> m * n" using q(1) by (intro mult_le_mono1) simp
      finally show ?thesis .
    qed
    then show "v \<in> {v. v < m * n \<and> v mod n = i}" using q assms by simp
  qed
  moreover have "inj_on (\<lambda>q. q * n + i) {..<m}"
    using assms by (auto simp: inj_on_def)
  ultimately show ?thesis by (simp add: Intn_def card_image)
qed

text \<open>
  Claim C3. In both resolvers (\<^verbatim>\<open>DialContext\<close> of \<^verbatim>\<open>serviceTransport\<close> and
  \<^verbatim>\<open>NetDial\<close> of \<^verbatim>\<open>ws\<close>), with the rack client built:
  \<^item> an empty process list ends the call with \<open>NoProcessesAvailable\<close>
    (NoInstancesAvailable) after one \<^verbatim>\<open>ProcessList\<close> query: no pipe, no relay task, no
    second query;
  \<^item> a non-empty list yields one connection, relayed to the process at index
    \<^verbatim>\<open>Intn(len(pss))\<close> of the list the call itself has just fetched, an index inside
    the list; and every index is the remainder of equally many generator outputs.
\<close>

theorem resolve_service_backend:
  assumes "RackFromEnv w = None"
  shows
    "(ProcessList w app service = Inr [] \<longrightarrow>
        serviceTransport_DialContext w app service port
          = ((None, Some (NoProcessesAvailable service)),
             [RackNewFromEnv, RackProcessList app service]) \<and>
        ws_NetDial w app service port
          = ((None, Some (NoProcessesAvailable service)),
             [RackNewFromEnv, RackProcessList app service]))
   \<and> (\<forall>pss. ProcessList w app service = Inr pss \<and> pss \<noteq> [] \<longrightarrow>
        Intn (draw w) (length pss) < length pss \<and>
        serviceTransport_DialContext w app service port
          = ((Some (PipeEnd (Id (pss ! Intn (draw w) (length pss)))), None),
             [RackNewFromEnv, RackProcessList app service, RandIntn (length pss),
              NetPipe, GoServiceProxy app (Id (pss ! Intn (draw w) (length pss))) port]) \<and>
        ws_NetDial w app service port
          = ((Some (NopDeadlineConn (PipeEnd (Id (pss ! Intn (draw w) (length pss))))), None),
             [RackNewFromEnv, RackProcessList app service, RandIntn (length pss),
              NetPipe, GoServiceProxy app (Id (pss ! Intn (draw w) (length pss))) port]) \<and>
        (\<forall>i m. i < length pss \<longrightarrow>
           card {v. v < m * length pss \<and> Intn v (length pss) = i} = m))"
  using assms
  by (auto simp: serviceTransport_DialContext_def ws_NetDial_def Let_def Intn_less Intn_uniform)

theorem resolve_service_backend_witness:
  "serviceTransport_DialContext
      \<lparr>RackFromEnv = None, ProcessList = (\<lambda>a s. Inr []), draw = 7\<rparr> ''myapp'' ''web'' 3000
    = ((None, Some (NoProcessesAvailable ''web'')),
       [RackNewFromEnv, RackProcessList ''myapp'' ''web''])
   \<and> serviceTransport_DialContext
        \<lparr>RackFromEnv = None,
         ProcessList = (\<lambda>a s. Inr [\<lparr>Id = ''p0''\<rparr>, \<lparr>Id = ''p1''\<rparr>, \<lparr>Id = ''p2''\<rparr>]),
         draw = 7\<rparr> ''myapp'' ''web'' 3000
      = ((Some (PipeEnd ''p1''), None),
         [RackNewFromEnv, RackProcessList ''myapp'' ''web'', RandIntn 3, NetPipe,
          GoServiceProxy ''myapp'' ''p1'' 3000])
   \<and> card {v. v < 5 * 3 \<and> Intn v 3 = 2} = 5"
proof -
  let ?w0 = "\<lparr>RackFromEnv = None, ProcessList = (\<lambda>a s. Inr []), draw = 7\<rparr>"
  let ?pss = "[\<lparr>Id = ''p0''\<rparr>, \<lparr>Id = ''p1''\<rparr>, \<lparr>Id = ''p2''\<rparr>]"
  let ?w3 = "\<lparr>RackFromEnv = None, ProcessList = (\<lambda>a s. Inr ?pss), draw = 7\<rparr>"
  have i: "Intn 7 3 = 1" by (simp add: Intn_def)
  have l: "length ?pss = 3" by simp
  have e0: "RackFromEnv ?w0 = None" and e3: "RackFromEnv ?w3 = None" by simp_all
  have p0: "ProcessList ?w0 ''myapp'' ''web'' = Inr []" by simp
  have p3: "ProcessList ?w3 ''myapp'' ''web'' = Inr ?pss \<and> ?pss \<noteq> []" by simp
  note r0 = resolve_service_backend [OF e0, of "''myapp''" "''web''" 3000]
  note r3 = resolve_service_backend [OF e3, of "''myapp''" "''web''" 3000]
  have a: "serviceTransport_DialContext ?w0 ''myapp'' ''web'' 3000
    = ((None, Some (NoProcessesAvailable ''web'')),
       [RackNewFromEnv, RackProcessList ''myapp'' ''web''])"
    using r0 p0 by blast
  from r3 p3 have r3': "serviceTransport_DialContext ?w3 ''myapp'' ''web'' 3000
          = ((Some (PipeEnd (Id (?pss ! Intn (draw ?w3) (length ?pss)))), None),
             [RackNewFromEnv, RackProcessList ''myapp'' ''web'', RandIntn (length ?pss),
              NetPipe, GoServiceProxy ''myapp'' (Id (?pss ! Intn (draw ?w3) (length ?pss))) 3000])"
     and u: "\<forall>i m. i < length ?pss \<longrightarrow>
           card {v. v < m * length ?pss \<and> Intn v (length ?pss) = i} = m"
    by blast+
  have b: "serviceTransport_DialContext ?w3 ''myapp'' ''web'' 3000
      = ((Some (PipeEnd ''p1''), None),
         [RackNewFromEnv, RackProcessList ''myapp'' ''web'', RandIntn 3, NetPipe,
          GoServiceProxy ''myapp'' ''p1'' 3000])"
    using r3' unfolding l by (simp add: i)
  have "(2::nat) < length ?pss" by simp
  with u have "card {v. v < 5 * length ?pss \<and> Intn v (length ?pss) = 2} = 5" by blast
  then have c: "card {v. v < 5 * 3 \<and> Intn v 3 = 2} = 5" by (simp only: l)
  from a b c show ?thesis by blast
qed

subsection \<open>The WebSocket bridge\<close>

text \<open>
  Claim C7 fails on the code in its second half. The handler of \<^verbatim>\<open>ws\<close> returns after
  the first value received on \<^verbatim>\<open>errc\<close>, as the claim says, but on no path does it
  close a connection: neither \<^verbatim>\<open>frontend\<close> nor \<^verbatim>\<open>backend\<close> is closed when it
  returns. (\<^verbatim>\<open>proxyTCPConnection\<close> and \<^verbatim>\<open>proxyRackTCP\<close> defer a \<^verbatim>\<open>Close\<close> of both
  of theirs.)
\<close>

theorem ws_closes_nothing:
  "ConnClose c \<notin> set (fst (snd (ws w p r)))
   \<and> fst (ws \<lparr>UpgradeResult = None, WsDialResult = None, Completions = [None]\<rparr> p r)
       = Returned ()
   \<and> fst (snd (ws \<lparr>UpgradeResult = None, WsDialResult = None, Completions = [None]\<rparr> p r))
       = [Upgrade, WsDial, GoCopy Frontend Backend, GoCopy Backend Frontend,
          ChanReceive None]"
  by (simp add: ws_def Let_def split: option.splits list.splits)

subsection \<open>WebSocket handshake headers\<close>


lemma valid_to_lower: "validHeaderFieldByte (to_lower c) = validHeaderFieldByte c"
  by (cases "is_upper c")
     (auto simp: to_lower_def validHeaderFieldByte_def is_upper_def is_lower_def)

lemma list_all_valid_lower:
  "list_all validHeaderFieldByte (map to_lower s) = list_all validHeaderFieldByte s"
  by (induction s) (simp_all add: valid_to_lower)

lemma canonical_step_lower:
  "(if u \<and> is_lower (to_lower c) then char_of ((of_char (to_lower c) :: nat) - 32)
    else if \<not> u \<and> is_upper (to_lower c) then char_of ((of_char (to_lower c) :: nat) + 32)
    else to_lower c)
   = (if u \<and> is_lower c then char_of ((of_char c :: nat) - 32)
      else if \<not> u \<and> is_upper c then char_of ((of_char c :: nat) + 32)
      else c)"
  by (cases "is_upper c") (auto simp: to_lower_def is_upper_def is_lower_def)

lemma canonical_loop_lower: "canonical_loop u (map to_lower s) = canonical_loop u s"
  by (induction s arbitrary: u) (simp_all add: canonical_step_lower Let_def)

lemma canonical_step_valid:
  "validHeaderFieldByte c \<Longrightarrow>
   validHeaderFieldByte
     (if u \<and> is_lower c then char_of ((of_char c :: nat) - 32)
      else if \<not> u \<and> is_upper c then char_of ((of_char c :: nat) + 32)
      else c)"
  by (auto simp: validHeaderFieldByte_def is_upper_def is_lower_def)

lemma canonical_loop_valid:
  "list_all validHeaderFieldByte s \<Longrightarrow> list_all validHeaderFieldByte (canonical_loop u s)"
  by (induction s arbitrary: u) (simp_all add: canonical_step_valid Let_def)

lemma canonical_step_idem:
  "c1 = (if u \<and> is_lower c then char_of ((of_char c :: nat) - 32)
         else if \<not> u \<and> is_upper c then char_of ((of_char c :: nat) + 32)
         else c) \<Longrightarrow>
   (if u \<and> is_lower c1 then char_of ((of_char c1 :: nat) - 32)
    else if \<not> u \<and> is_upper c1 then char_of ((of_char c1 :: nat) + 32)
    else c1) = c1"
  by (auto simp: is_upper_def is_lower_def)

lemma canonical_loop_idem: "canonical_loop u (canonical_loop u s) = canonical_loop u s"
  by (induction s arbitrary: u) (simp_all add: canonical_step_idem Let_def)

lemma Canonical_idem:
  "CanonicalMIMEHeaderKey (CanonicalMIMEHeaderKey n) = CanonicalMIMEHeaderKey n"
  by (simp add: CanonicalMIMEHeaderKey_def canonical_loop_valid canonical_loop_idem)

lemma Canonical_of_lower:
  assumes "map to_lower n = map to_lower s" and "list_all validHeaderFieldByte s"
  shows "CanonicalMIMEHeaderKey n = CanonicalMIMEHeaderKey s"
proof -
  have "list_all validHeaderFieldByte n"
    using assms list_all_valid_lower by metis
  moreover have "canonical_loop True n = canonical_loop True s"
    using assms(1) canonical_loop_lower by metis
  ultimately show ?thesis using assms(2) by (simp add: CanonicalMIMEHeaderKey_def)
qed

lemmas canon_eval = CanonicalMIMEHeaderKey_def validHeaderFieldByte_def is_upper_def
  is_lower_def is_digit_def Let_def char_of_eq_iff

lemma canon_Upgrade: "CanonicalMIMEHeaderKey ''Upgrade'' = ''Upgrade''"
  by (simp add: canon_eval)

lemma canon_Connection: "CanonicalMIMEHeaderKey ''Connection'' = ''Connection''"
  by (simp add: canon_eval)

lemma canon_Key: "CanonicalMIMEHeaderKey ''Sec-WebSocket-Key'' = ''Sec-Websocket-Key''"
  by (simp add: canon_eval)

lemma canon_Version:
  "CanonicalMIMEHeaderKey ''Sec-WebSocket-Version'' = ''Sec-Websocket-Version''"
  by (simp add: canon_eval)

lemma canon_Extensions:
  "CanonicalMIMEHeaderKey ''Sec-WebSocket-Extensions'' = ''Sec-Websocket-Extensions''"
  by (simp add: canon_eval)

lemma canon_Protocol:
  "CanonicalMIMEHeaderKey ''Sec-WebSocket-Protocol'' = ''Sec-Websocket-Protocol''"
  by (simp add: canon_eval)

lemma valid_negotiation:
  "s \<in> set negotiation_headers \<Longrightarrow> list_all validHeaderFieldByte s"
  unfolding negotiation_headers_def
  by (auto simp: validHeaderFieldByte_def is_upper_def is_lower_def is_digit_def)

lemma Canonical_negotiation:
  "s \<in> set negotiation_headers \<Longrightarrow> CanonicalMIMEHeaderKey s \<in> skipped"
  unfolding negotiation_headers_def skipped_def
  using canon_Upgrade canon_Connection canon_Key canon_Version canon_Extensions canon_Protocol
  by auto

lemma dom_Header_Add: "dom (Header_Add h k s) = insert (CanonicalMIMEHeaderKey k) (dom h)"
  by (simp add: Header_Add_def Let_def)

lemma has_Header_Add_new: "has (Header_Add h k s) (CanonicalMIMEHeaderKey k) s"
  by (simp add: has_def Header_Add_def Let_def)

lemma has_Header_Add_mono: "has h k v \<Longrightarrow> has (Header_Add h k' s) k v"
  by (auto simp: has_def Header_Add_def Let_def)

lemma has_fold_Add_mono: "has h k v \<Longrightarrow> has (fold (\<lambda>s h. Header_Add h k' s) vs h) k v"
  by (induction vs arbitrary: h) (simp_all add: has_Header_Add_mono)

lemma has_fold_Add_new:
  "v \<in> set vs \<Longrightarrow> has (fold (\<lambda>s h. Header_Add h k s) vs h) (CanonicalMIMEHeaderKey k) v"
proof (induction vs arbitrary: h)
  case Nil
  then show ?case by simp
next
  case (Cons s vs)
  show ?case
  proof (cases "v = s")
    case True
    then show ?thesis
      using has_fold_Add_mono [OF has_Header_Add_new [of h k s], of k vs] by simp
  next
    case False
    with Cons show ?thesis by simp
  qed
qed

lemma dom_fold_Add:
  "dom (fold (\<lambda>s h. Header_Add h k s) vs h) \<subseteq> insert (CanonicalMIMEHeaderKey k) (dom h)"
proof (induction vs arbitrary: h)
  case Nil
  show ?case by auto
next
  case (Cons s vs)
  from Cons [of "Header_Add h k s"] show ?case
    by (auto simp: dom_Header_Add)
qed

lemma ws_step_skipped: "k \<in> skipped \<Longrightarrow> ws_step (k, vs) h = h"
  by (auto simp: ws_step_def skipped_def)

lemma ws_step_kept: "k \<notin> skipped \<Longrightarrow> ws_step (k, vs) h = fold (\<lambda>s h. Header_Add h k s) vs h"
  by (simp add: ws_step_def skipped_def)

lemma has_ws_step_mono: "has h k v \<Longrightarrow> has (ws_step e h) k v"
  by (cases e, cases "fst e \<in> skipped")
     (simp_all add: ws_step_skipped ws_step_kept has_fold_Add_mono)

lemma has_fold_ws_step_mono: "has h k v \<Longrightarrow> has (fold ws_step rh h) k v"
  by (induction rh arbitrary: h) (simp_all add: has_ws_step_mono)

lemma has_fold_ws_step_new:
  "(k, vs) \<in> set rh \<Longrightarrow> k \<notin> skipped \<Longrightarrow> v \<in> set vs \<Longrightarrow>
   has (fold ws_step rh h) (CanonicalMIMEHeaderKey k) v"
proof (induction rh arbitrary: h)
  case Nil
  then show ?case by simp
next
  case (Cons e rh)
  show ?case
  proof (cases "e = (k, vs)")
    case True
    have "has (ws_step e h) (CanonicalMIMEHeaderKey k) v"
      using True Cons.prems by (simp add: ws_step_kept has_fold_Add_new)
    then show ?thesis by (simp add: has_fold_ws_step_mono)
  next
    case False
    with Cons show ?thesis by simp
  qed
qed

lemma dom_ws_step:
  "dom (ws_step (k, vs) h) \<subseteq> dom h \<union> (if k \<in> skipped then {} else {CanonicalMIMEHeaderKey k})"
  using dom_fold_Add [of k vs h]
  by (cases "k \<in> skipped") (auto simp: ws_step_skipped ws_step_kept)

lemma dom_fold_ws_step:
  "dom (fold ws_step rh h) \<subseteq> dom h \<union> CanonicalMIMEHeaderKey ` (fst ` set rh - skipped)"
proof (induction rh arbitrary: h)
  case Nil
  show ?case by simp
next
  case (Cons e rh)
  obtain k vs where e: "e = (k, vs)" by (cases e)
  have "dom (fold ws_step rh (ws_step e h))
        \<subseteq> dom (ws_step e h) \<union> CanonicalMIMEHeaderKey ` (fst ` set rh - skipped)"
    by (rule Cons.IH)
  moreover have "dom (ws_step e h)
        \<subseteq> dom h \<union> (if k \<in> skipped then {} else {CanonicalMIMEHeaderKey k})"
    unfolding e by (rule dom_ws_step)
  ultimately show ?case unfolding e by (auto split: if_splits)
qed

lemma ws_headers_fold:
  "ws_headers p r =
     fold ws_step (Header r)
          (Header_Add
             (Header_Add
                (Header_Add Map.empty ''X-Forwarded-For'' (RemoteAddr r))
                ''X-Forwarded-Port'' (Port (Listen p)))
             ''X-Forwarded-Proto'' (Scheme (Listen p)))"
  by (simp add: ws_headers_def)

lemma canon_forwarded:
  "CanonicalMIMEHeaderKey ''X-Forwarded-For'' = ''X-Forwarded-For''"
  "CanonicalMIMEHeaderKey ''X-Forwarded-Port'' = ''X-Forwarded-Port''"
  "CanonicalMIMEHeaderKey ''X-Forwarded-Proto'' = ''X-Forwarded-Proto''"
  by (simp_all add: canon_eval)

lemma eq_char_of_iff: "(c = char_of n) = (take_bit 8 n = of_char c)"
  using char_of_eq_iff [of n c] by auto

lemma skipped_lower:
  "k \<in> skipped \<Longrightarrow> \<exists>s \<in> set negotiation_headers. map to_lower k = map to_lower s"
  unfolding skipped_def negotiation_headers_def
  by (auto simp: to_lower_def is_upper_def char_of_eq_iff eq_char_of_iff)

lemma negotiation_lower_canonical:
  assumes "s \<in> set negotiation_headers" and "map to_lower n = map to_lower s"
  shows "CanonicalMIMEHeaderKey n \<in> skipped"
  using Canonical_of_lower [OF assms(2) valid_negotiation [OF assms(1)]]
    Canonical_negotiation [OF assms(1)] by simp

text \<open>
  Claim C6. The keys of \<^verbatim>\<open>r.Header\<close> are canonical MIME header keys, the form in
  which the HTTP server stores every header name whatever its letter case on the wire.
  Then the header \<^verbatim>\<open>ws\<close> hands to the outbound handshake
  \<^item> has no key that equals one of the six negotiation headers up to letter case;
  \<^item> has, under its own key, every value of every other header of the request;
  \<^item> has the remote address under \<^verbatim>\<open>X-Forwarded-For\<close>, the listen port under
    \<^verbatim>\<open>X-Forwarded-Port\<close> and the listen scheme under \<^verbatim>\<open>X-Forwarded-Proto\<close>.
\<close>

theorem ws_headers_negotiation:
  assumes "\<forall>k \<in> fst ` set (Header r). \<exists>n. k = CanonicalMIMEHeaderKey n"
  shows
    "(\<forall>n s. s \<in> set negotiation_headers \<and> map to_lower n = map to_lower s \<longrightarrow>
        ws_headers p r n = None)
   \<and> (\<forall>k vs v. (k, vs) \<in> set (Header r) \<and> v \<in> set vs \<and>
        (\<forall>s \<in> set negotiation_headers. map to_lower k \<noteq> map to_lower s) \<longrightarrow>
        has (ws_headers p r) k v)
   \<and> has (ws_headers p r) ''X-Forwarded-For'' (RemoteAddr r)
   \<and> has (ws_headers p r) ''X-Forwarded-Port'' (Port (Listen p))
   \<and> has (ws_headers p r) ''X-Forwarded-Proto'' (Scheme (Listen p))"
proof -
  let ?h0 = "Header_Add
             (Header_Add
                (Header_Add Map.empty ''X-Forwarded-For'' (RemoteAddr r))
                ''X-Forwarded-Port'' (Port (Listen p)))
             ''X-Forwarded-Proto'' (Scheme (Listen p))"
  have out: "ws_headers p r = fold ws_step (Header r) ?h0"
    by (rule ws_headers_fold)
  have fixed: "CanonicalMIMEHeaderKey k = k" if "k \<in> fst ` set (Header r)" for k
    using assms that Canonical_idem by metis
  have dom0: "dom ?h0 = {''X-Forwarded-For'', ''X-Forwarded-Port'', ''X-Forwarded-Proto''}"
    by (auto simp: dom_Header_Add canon_forwarded)
  have a: "ws_headers p r n = None"
    if s: "s \<in> set negotiation_headers" and l: "map to_lower n = map to_lower s" for n s
  proof (rule ccontr)
    assume "ws_headers p r n \<noteq> None"
    then have "n \<in> dom (fold ws_step (Header r) ?h0)" by (auto simp: out)
    with dom_fold_ws_step [of "Header r" ?h0]
    have "n \<in> dom ?h0 \<or> n \<in> CanonicalMIMEHeaderKey ` (fst ` set (Header r) - skipped)"
      by blast
    then have n: "CanonicalMIMEHeaderKey n = n \<and> n \<notin> skipped"
    proof
      assume "n \<in> dom ?h0"
      then show ?thesis unfolding dom0 by (auto simp: canon_forwarded skipped_def)
    next
      assume "n \<in> CanonicalMIMEHeaderKey ` (fst ` set (Header r) - skipped)"
      then obtain k where k: "k \<in> fst ` set (Header r)" "k \<notin> skipped"
        "n = CanonicalMIMEHeaderKey k" by blast
      with fixed [OF k(1)] show ?thesis by simp
    qed
    with negotiation_lower_canonical [OF s l] show False by simp
  qed
  have b: "has (ws_headers p r) k v"
    if kv: "(k, vs) \<in> set (Header r)" "v \<in> set vs"
      and other: "\<forall>s \<in> set negotiation_headers. map to_lower k \<noteq> map to_lower s" for k vs v
  proof -
    have "k \<notin> skipped" using other skipped_lower by blast
    from has_fold_ws_step_new [OF kv(1) this kv(2), of ?h0]
    have "has (ws_headers p r) (CanonicalMIMEHeaderKey k) v" by (simp add: out)
    moreover have "CanonicalMIMEHeaderKey k = k"
      using kv(1) by (intro fixed) force
    ultimately show ?thesis by simp
  qed
  have c: "has ?h0 ''X-Forwarded-For'' (RemoteAddr r)"
      "has ?h0 ''X-Forwarded-Port'' (Port (Listen p))"
      "has ?h0 ''X-Forwarded-Proto'' (Scheme (Listen p))"
    by (simp_all add: has_def Header_Add_def Let_def canon_forwarded)
  from a b c show ?thesis
    by (simp add: out has_fold_ws_step_mono) blast
qed

theorem ws_headers_negotiation_witness:
  "''Upgrade'' = CanonicalMIMEHeaderKey ''upgrade''
   \<and> ''Sec-Websocket-Key'' = CanonicalMIMEHeaderKey ''sec-websocket-key''
   \<and> ''Cookie'' = CanonicalMIMEHeaderKey ''cookie''
   \<and> ws_headers
        \<lparr>Listen = \<lparr>Scheme = ''https'', Host = ''0.0.0.0:443'', Path = ''''\<rparr>,
         Target = \<lparr>Scheme = ''https'', Host = ''rack'', Path = ''/myapp/service/web:3000''\<rparr>\<rparr>
        \<lparr>RemoteAddr = ''10.0.0.9:4242'',
         Header = [(''Upgrade'', [''websocket'']), (''Sec-Websocket-Key'', [''abc'']),
                   (''Cookie'', [''a=b''])]\<rparr>
        ''sec-websocket-key'' = None
   \<and> has (ws_headers
        \<lparr>Listen = \<lparr>Scheme = ''https'', Host = ''0.0.0.0:443'', Path = ''''\<rparr>,
         Target = \<lparr>Scheme = ''https'', Host = ''rack'', Path = ''/myapp/service/web:3000''\<rparr>\<rparr>
        \<lparr>RemoteAddr = ''10.0.0.9:4242'',
         Header = [(''Upgrade'', [''websocket'']), (''Sec-Websocket-Key'', [''abc'']),
                   (''Cookie'', [''a=b''])]\<rparr>)
        ''Cookie'' ''a=b''"
proof -
  let ?r = "\<lparr>RemoteAddr = ''10.0.0.9:4242'',
        Header = [(''Upgrade'', [''websocket'']), (''Sec-Websocket-Key'', [''abc'']),
                  (''Cookie'', [''a=b''])]\<rparr>"
  let ?p = "\<lparr>Listen = \<lparr>Scheme = ''https'', Host = ''0.0.0.0:443'', Path = ''''\<rparr>,
         Target = \<lparr>Scheme = ''https'', Host = ''rack'', Path = ''/myapp/service/web:3000''\<rparr>\<rparr>"
  have c: "''Upgrade'' = CanonicalMIMEHeaderKey ''upgrade''"
    "''Sec-Websocket-Key'' = CanonicalMIMEHeaderKey ''sec-websocket-key''"
    "''Cookie'' = CanonicalMIMEHeaderKey ''cookie''"
    by (simp_all add: canon_eval eq_char_of_iff)
  have hyp: "\<forall>k \<in> fst ` set (Header ?r). \<exists>n. k = CanonicalMIMEHeaderKey n"
    using c by (simp, metis)
  have s: "''Sec-WebSocket-Key'' \<in> set negotiation_headers"
    by (simp add: negotiation_headers_def)
  have l: "map to_lower ''sec-websocket-key'' = map to_lower ''Sec-WebSocket-Key''"
    by (simp add: to_lower_def is_upper_def char_of_eq_iff eq_char_of_iff)
  have o: "\<forall>s \<in> set negotiation_headers. map to_lower ''Cookie'' \<noteq> map to_lower s"
    by (simp add: negotiation_headers_def)
  have m: "(''Cookie'', [''a=b'']) \<in> set (Header ?r) \<and> ''a=b'' \<in> set [''a=b'']"
    by simp
  note t = ws_headers_negotiation [OF hyp, of ?p]
  have "ws_headers ?p ?r ''sec-websocket-key'' = None"
    using t s l by blast
  moreover have "has (ws_headers ?p ?r) ''Cookie'' ''a=b''"
    using t m o by blast
  ultimately show ?thesis using c by blast
qed

subsection \<open>JSON form of a proxy\<close>

lemma sort_listen_target:
  "sort_key fst [(''listen'', a), (''target'', b)] = [(''listen'', a), (''target'', b)]"
  by (simp add: less_eq_char_def less_char_def)

lemma json_string_listen: \<open>json_string ''listen'' = ''"listen"''\<close>
  by (simp add: json_string_def json_escape_byte_def htmlSafe_def)

lemma json_string_target: \<open>json_string ''target'' = ''"target"''\<close>
  by (simp add: json_string_def json_escape_byte_def htmlSafe_def)

lemma MarshalJSON_shape:
  \<open>MarshalJSON p =
     (''{"listen":'' @ json_string (url_String (Listen p)) @
      '',"target":'' @ json_string (url_String (Target p)) @ ''}'', None)\<close>
  by (simp add: MarshalJSON_def json_Marshal_def sort_listen_target json_string_listen
        json_string_target)

lemma example_listen:
  "url_String \<lparr>Scheme = ''tcp'', Host = ''0.0.0.0:5000'', Path = ''''\<rparr> = ''tcp://0.0.0.0:5000''"
  by code_simp

lemma example_target:
  "url_String \<lparr>Scheme = ''tcp'', Host = ''rack'', Path = ''/myapp/service/web:3000''\<rparr>
   = ''tcp://rack/myapp/service/web:3000''"
  by code_simp

lemma json_example_listen: \<open>json_string ''tcp://0.0.0.0:5000'' = ''"tcp://0.0.0.0:5000"''\<close>
  by code_simp

lemma json_example_target:
  \<open>json_string ''tcp://rack/myapp/service/web:3000'' = ''"tcp://rack/myapp/service/web:3000"''\<close>
  by code_simp

text \<open>
  Claim C8. For every proxy, \<^verbatim>\<open>MarshalJSON\<close> returns, without error, the object with
  the two members \<^verbatim>\<open>listen\<close> and \<^verbatim>\<open>target\<close>, in this order, whose values are the
  JSON strings of \<^verbatim>\<open>Listen.String()\<close> and \<^verbatim>\<open>Target.String()\<close>; for
  \<^verbatim>\<open>tcp://0.0.0.0:5000\<close> and \<^verbatim>\<open>tcp://rack/myapp/service/web:3000\<close> these are the
  bytes the spec gives.
\<close>

theorem MarshalJSON_exact:
  \<open>MarshalJSON p =
     (''{"listen":'' @ json_string (url_String (Listen p)) @
      '',"target":'' @ json_string (url_String (Target p)) @ ''}'', None)
   \<and> MarshalJSON
        \<lparr>Listen = \<lparr>Scheme = ''tcp'', Host = ''0.0.0.0:5000'', Path = ''''\<rparr>,
         Target = \<lparr>Scheme = ''tcp'', Host = ''rack'', Path = ''/myapp/service/web:3000''\<rparr>\<rparr>
      = (''{"listen":"tcp://0.0.0.0:5000","target":"tcp://rack/myapp/service/web:3000"}'',
         None)\<close>
  by (simp add: MarshalJSON_shape example_listen example_target json_example_listen
        json_example_target)

lemma witness_listen:
  "url_String \<lparr>Scheme = ''https'', Host = ''0.0.0.0:443'', Path = ''''\<rparr> = ''https://0.0.0.0:443''"
  by code_simp

lemma witness_target:
  "url_String \<lparr>Scheme = ''http'', Host = ''10.0.0.1:8080'', Path = ''/a b''\<rparr>
   = ''http://10.0.0.1:8080/a%20b''"
  by code_simp

lemma json_witness_listen: \<open>json_string ''https://0.0.0.0:443'' = ''"https://0.0.0.0:443"''\<close>
  by code_simp

lemma json_witness_target:
  \<open>json_string ''http://10.0.0.1:8080/a%20b'' = ''"http://10.0.0.1:8080/a%20b"''\<close>
  by code_simp

theorem MarshalJSON_exact_witness:
  \<open>MarshalJSON
      \<lparr>Listen = \<lparr>Scheme = ''https'', Host = ''0.0.0.0:443'', Path = ''''\<rparr>,
       Target = \<lparr>Scheme = ''http'', Host = ''10.0.0.1:8080'', Path = ''/a b''\<rparr>\<rparr>
    = (''{"listen":"https://0.0.0.0:443","target":"http://10.0.0.1:8080/a%20b"}'',
       None)\<close>
  using MarshalJSON_exact
    [of "\<lparr>Listen = \<lparr>Scheme = ''https'', Host = ''0.0.0.0:443'', Path = ''''\<rparr>,
          Target = \<lparr>Scheme = ''http'', Host = ''10.0.0.1:8080'', Path = ''/a b''\<rparr>\<rparr>"]
  by (simp add: witness_listen witness_target json_witness_listen json_witness_target)

subsection \<open>Build hash\<close>

text \<open>
  Claim C10. Whatever the digest and quoting functions, two services with the same
  \<^verbatim>\<open>Build.Path\<close>, \<^verbatim>\<open>Build.Args\<close> and \<^verbatim>\<open>Image\<close> have the same
  \<^verbatim>\<open>BuildHash\<close>: \<^verbatim>\<open>Name\<close>, \<^verbatim>\<open>Environment\<close> and \<^verbatim>\<open>Test\<close> do not enter it.
\<close>

theorem BuildHash_deterministic:
  assumes "BuildPath (Build s) = BuildPath (Build t)"
      and "Args (Build s) = Args (Build t)"
      and "Image s = Image t"
  shows "BuildHash sha1_Sum Quote s = BuildHash sha1_Sum Quote t"
  using assms by (simp add: BuildHash_def)

theorem BuildHash_deterministic_witness:
  "BuildHash (take 20) (\<lambda>q. CHR 0x22 # q @ [CHR 0x22])
     \<lparr>Name = ''web'', Build = \<lparr>Args = [''A=1'', ''B=2''], BuildPath = ''.''\<rparr>,
      Environment = [''PORT=3000''], Image = ''ubuntu:16.04'', Test = ''make test''\<rparr>
   = BuildHash (take 20) (\<lambda>q. CHR 0x22 # q @ [CHR 0x22])
     \<lparr>Name = ''worker'', Build = \<lparr>Args = [''A=1'', ''B=2''], BuildPath = ''.''\<rparr>,
      Environment = [], Image = ''ubuntu:16.04'', Test = ''''\<rparr>"
proof -
  let ?s = "\<lparr>Name = ''web'', Build = \<lparr>Args = [''A=1'', ''B=2''], BuildPath = ''.''\<rparr>,
      Environment = [''PORT=3000''], Image = ''ubuntu:16.04'', Test = ''make test''\<rparr>"
  let ?t = "\<lparr>Name = ''worker'', Build = \<lparr>Args = [''A=1'', ''B=2''], BuildPath = ''.''\<rparr>,
      Environment = [], Image = ''ubuntu:16.04'', Test = ''''\<rparr>"
  have "BuildPath (Build ?s) = BuildPath (Build ?t)"
    and "Args (Build ?s) = Args (Build ?t)" and "Image ?s = Image ?t"
    by simp_all
  then show ?thesis by (rule BuildHash_deterministic)
qed

end
